theory Spec2Isabelle
  imports Main "HOL-Library.Word" "HOL-Library.Sublist" "HOL-Library.Multiset"
begin

section \<open>Bootstrap of the application (main.c)\<close>

text \<open>
  \<^verbatim>\<open>main.c\<close> only wires the application: it calls the cocoOS kernel
  (\<^verbatim>\<open>sem_counting_create\<close>, \<^verbatim>\<open>os_init\<close>, \<^verbatim>\<open>task_create\<close>,
  \<^verbatim>\<open>event_create\<close>, \<^verbatim>\<open>os_start\<close>) and the sensor and display modules.
  The embedding threads an explicit state through these calls: the file's global variables,
  the kernel's semaphore and task tables as the calls fill them, and the sequence of external
  calls made so far. What an external call returns is not fixed by \<^verbatim>\<open>main.c\<close>;
  it is taken from a \<open>platform\<close> parameter, and every theorem holds for all platforms.
\<close>

subsection \<open>Values and handles\<close>

text \<open>Addresses that \<^verbatim>\<open>main.c\<close> passes around: the null pointer (the literal 0),
  the addresses of its own static objects, and pointers returned by external getters.\<close>

datatype addr =
    Null
  | Addr_tempSensorTaskData
  | Addr_gyroSensorTaskData
  | Addr_displayMsgPool
  | Addr_tempEvt
  | Extern nat

text \<open>The two task procedures that \<^verbatim>\<open>main.c\<close> hands to \<^verbatim>\<open>task_create\<close>.\<close>

datatype taskproc = sensor_task | display_task

text \<open>The data kinds passed to \<^verbatim>\<open>init_sensor_func\<close>.\<close>

datatype data_kind = TEMP_DATA | GYRO_DATA

type_synonym Sem_t = nat
type_synonym Evt_t = nat

text \<open>\<^verbatim>\<open>SensorTaskData\<close>: the two fields \<^verbatim>\<open>sensor_setup\<close> assigns.\<close>

record SensorTaskData =
  display_task_id :: "8 word"
  sensor :: addr

text \<open>One row of the kernel's task table: the six arguments of \<^verbatim>\<open>task_create\<close>
  and the id it returned. The priority and the queue sizes are integer literals in the source;
  the absent prototype fixes their C type, and the literals used (0, 5, 10, 20, 100) fit any
  integer type.\<close>

record task =
  task_id :: "8 word"
  taskproc :: taskproc
  data :: addr
  prio :: int
  msgPool :: addr
  poolSize :: int
  msgSize :: int

text \<open>A counting semaphore as \<^verbatim>\<open>sem_counting_create(max, init)\<close> configures it.\<close>

record semaphore =
  sem_max :: int
  sem_value :: int

text \<open>External calls, in the order they are made. A debug message is recorded by its text;
  its second argument is the literal 0 at every call.\<close>

datatype call =
    C_init
  | C_debug string
  | C_init_display
  | C_sem_counting_create int int
  | C_os_init
  | C_get_display
  | C_task_create task
  | C_event_create
  | C_get_temp_sensor
  | C_get_gyro_sensor
  | C_init_sensor_func addr data_kind addr int
  | C_arduino_start_timer
  | C_os_start

text \<open>What the external functions return. \<open>event_create_ret n\<close> is the handle returned by
  the call made when \<open>n\<close> events exist; \<open>task_create_ret ts\<close> is the id returned when the
  task table is \<open>ts\<close>. The getters of the sensor and display modules return pointers to
  objects of those modules, \<open>Extern n\<close>: the statics of \<^verbatim>\<open>main.c\<close> have internal
  linkage and are not among them.\<close>

record platform =
  sem_counting_create_ret :: Sem_t
  event_create_ret :: "nat \<Rightarrow> Evt_t"
  task_create_ret :: "task list \<Rightarrow> 8 word"
  get_display_ret :: nat
  get_temp_sensor_ret :: nat
  get_gyro_sensor_ret :: nat
  sizeof_DisplayMsg :: int

subsection \<open>State\<close>

record sys =
  i2cSemaphore :: Sem_t
  tempEvt :: Evt_t
  prevChEvt :: Evt_t
  nextChEvt :: Evt_t
  tempSensorTaskData :: SensorTaskData
  gyroSensorTaskData :: SensorTaskData
  sems :: "(Sem_t \<times> semaphore) list"
  events :: "Evt_t list"
  tasks :: "task list"
  calls :: "call list"

text \<open>C zero-initialises statics: handles are 0, pointers are null, the kernel tables are
  empty and nothing has been called.\<close>

definition sys0 :: sys where
  "sys0 = \<lparr> i2cSemaphore = 0, tempEvt = 0, prevChEvt = 0, nextChEvt = 0,
            tempSensorTaskData = \<lparr> display_task_id = 0, sensor = Null \<rparr>,
            gyroSensorTaskData = \<lparr> display_task_id = 0, sensor = Null \<rparr>,
            sems = [], events = [], tasks = [], calls = [] \<rparr>"

subsection \<open>The external calls as state updates\<close>

definition called :: "call \<Rightarrow> sys \<Rightarrow> sys" where
  "called c s = s\<lparr> calls := calls s @ [c] \<rparr>"

definition debug :: "string \<Rightarrow> sys \<Rightarrow> sys" where
  "debug m s = called (C_debug m) s"

definition sem_counting_create :: "platform \<Rightarrow> int \<Rightarrow> int \<Rightarrow> sys \<Rightarrow> Sem_t \<times> sys" where
  "sem_counting_create p mx iv s =
     (sem_counting_create_ret p,
      (called (C_sem_counting_create mx iv) s)
        \<lparr> sems := sems s @ [(sem_counting_create_ret p, \<lparr> sem_max = mx, sem_value = iv \<rparr>)] \<rparr>)"

definition event_create :: "platform \<Rightarrow> sys \<Rightarrow> Evt_t \<times> sys" where
  "event_create p s =
     (let e = event_create_ret p (length (events s))
      in (e, (called C_event_create s)\<lparr> events := events s @ [e] \<rparr>))"

definition task_create ::
  "platform \<Rightarrow> taskproc \<Rightarrow> addr \<Rightarrow> int \<Rightarrow> addr \<Rightarrow> int \<Rightarrow> int \<Rightarrow> sys \<Rightarrow> 8 word \<times> sys" where
  "task_create p f d pr pool n sz s =
     (let t = \<lparr> task_id = task_create_ret p (tasks s), taskproc = f, data = d, prio = pr,
                msgPool = pool, poolSize = n, msgSize = sz \<rparr>
      in (task_id t, (called (C_task_create t) s)\<lparr> tasks := tasks s @ [t] \<rparr>))"

subsection \<open>Setup and main\<close>

definition arduino_setup :: "sys \<Rightarrow> sys" where
  "arduino_setup s = debug ''----arduino_setup'' (called C_init s)"

definition maxCount :: int where
  "maxCount = 10"

definition initValue :: int where
  "initValue = 1"

definition system_setup :: "platform \<Rightarrow> sys \<Rightarrow> sys" where
  "system_setup p s =
     (let s = arduino_setup s;
          s = debug ''init_display'' s;
          s = called C_init_display s;
          s = debug ''Create semaphore'' s;
          (h, s) = sem_counting_create p maxCount initValue s
      in s\<lparr> i2cSemaphore := h \<rparr>)"

definition pollIntervalMillisec :: int where
  "pollIntervalMillisec = 500"

definition sensor_setup :: "platform \<Rightarrow> 8 word \<Rightarrow> sys \<Rightarrow> sys" where
  "sensor_setup p display_id s =
     (let (e, s) = event_create p s;
          s = s\<lparr> tempEvt := e \<rparr>;
          (e, s) = event_create p s;
          s = s\<lparr> prevChEvt := e \<rparr>;
          (e, s) = event_create p s;
          s = s\<lparr> nextChEvt := e \<rparr>;
          s = s\<lparr> tempSensorTaskData := (tempSensorTaskData s)\<lparr> display_task_id := display_id \<rparr> \<rparr>;
          s = called C_get_temp_sensor s;
          s = s\<lparr> tempSensorTaskData := (tempSensorTaskData s)\<lparr> sensor := Extern (get_temp_sensor_ret p) \<rparr> \<rparr>;
          s = called (C_init_sensor_func (sensor (tempSensorTaskData s)) TEMP_DATA Addr_tempEvt
                        pollIntervalMillisec) s;
          s = s\<lparr> gyroSensorTaskData := (gyroSensorTaskData s)\<lparr> display_task_id := display_id \<rparr> \<rparr>;
          s = called C_get_gyro_sensor s;
          s = s\<lparr> gyroSensorTaskData := (gyroSensorTaskData s)\<lparr> sensor := Extern (get_gyro_sensor_ret p) \<rparr> \<rparr>;
          s = called (C_init_sensor_func (sensor (gyroSensorTaskData s)) GYRO_DATA Null
                        pollIntervalMillisec) s;
          (_, s) = task_create p sensor_task Addr_tempSensorTaskData 10 Null 0 0 s;
          (_, s) = task_create p sensor_task Addr_gyroSensorTaskData 20 Null 0 0 s
      in s)"

definition displayMsgPoolSize :: int where
  "displayMsgPoolSize = 5"

text \<open>\<^verbatim>\<open>arduino_start_timer\<close> writes the AVR timer registers and enables interrupts,
  after which the timer interrupt calls \<^verbatim>\<open>os_tick\<close>; it touches none of the state
  above and is recorded as one call. \<^verbatim>\<open>os_start\<close> never returns, so the state
  after it is the state in which the scheduler runs.\<close>

definition main :: "platform \<Rightarrow> sys \<Rightarrow> sys" where
  "main p s =
     (let s = system_setup p s;
          s = called C_os_init s;
          s = called C_get_display s;
          (display_id, s) = task_create p display_task (Extern (get_display_ret p)) 100
                              Addr_displayMsgPool displayMsgPoolSize (sizeof_DisplayMsg p) s;
          s = sensor_setup p display_id s;
          s = called C_arduino_start_timer s;
          s = called C_os_start s
      in s)"

text \<open>The rows of the task table as \<^verbatim>\<open>main\<close> leaves it, written out.\<close>

definition display_row :: "platform \<Rightarrow> task" where
  "display_row p =
     \<lparr> task_id = task_create_ret p [], taskproc = display_task,
       data = Extern (get_display_ret p),
       prio = 100, msgPool = Addr_displayMsgPool, poolSize = 5, msgSize = sizeof_DisplayMsg p \<rparr>"

definition temp_row :: "platform \<Rightarrow> task" where
  "temp_row p =
     \<lparr> task_id = task_create_ret p [display_row p], taskproc = sensor_task,
       data = Addr_tempSensorTaskData, prio = 10, msgPool = Null, poolSize = 0, msgSize = 0 \<rparr>"

definition gyro_row :: "platform \<Rightarrow> task" where
  "gyro_row p =
     \<lparr> task_id = task_create_ret p [display_row p, temp_row p], taskproc = sensor_task,
       data = Addr_gyroSensorTaskData, prio = 20, msgPool = Null, poolSize = 0, msgSize = 0 \<rparr>"

text \<open>A concrete platform for evaluating the bootstrap: handles and ids are handed out in
  order of creation, as a kernel with tables would.\<close>

definition demo_platform :: platform where
  "demo_platform =
     \<lparr> sem_counting_create_ret = 0, event_create_ret = (\<lambda>n. n),
       task_create_ret = (\<lambda>ts. of_nat (length ts)),
       get_display_ret = 1, get_temp_sensor_ret = 2, get_gyro_sensor_ret = 3,
       sizeof_DisplayMsg = 16 \<rparr>"

section \<open>The running system: bus lock, sensor task procedure, display queue\<close>

text \<open>
  \<^verbatim>\<open>main.c\<close> registers \<^verbatim>\<open>sensor_task\<close> and \<^verbatim>\<open>display_task\<close> and
  creates the semaphore and the message pool, but the bodies of the two task procedures and the
  kernel's semaphore and message queue are in other files. This section models them as the
  specification describes them (sections 3, 4.2, 4.4, 5, 6 and 7), started in the state that
  \<^const>\<open>main\<close> leaves behind.

  Each phase transition of a task is one step, and any task may take the next step. The
  cooperative scheduler of the specification only switches tasks at suspension points, so its
  executions are among the interleavings considered here.
\<close>

text \<open>Modelled from the spec: the counting lock of the runtime (the kernel's semaphore take and
  give are not in \<^verbatim>\<open>main.c\<close>). Section 6: "Counting lock: create(max_count,
  initial_count); acquire(handle) [blocks if unavailable]; release(handle)". Section 3: the state
  is the available count; it is decremented by a successful acquire and incremented by a release.
  A blocked acquire is \<open>None\<close>: the caller stays where it is.\<close>

record BusLock =
  available :: int
  max_count :: int

definition acquire :: "BusLock \<Rightarrow> BusLock option" where
  "acquire l = (if 0 < available l then Some (l\<lparr> available := available l - 1 \<rparr>) else None)"

definition release :: "BusLock \<Rightarrow> BusLock" where
  "release l = l\<lparr> available := available l + 1 \<rparr>"

text \<open>Modelled from the spec: the Notification Binding of section 3, "either an event handle or
  a poll interval", chosen by the optional event handle given to \<^verbatim>\<open>init\<close>
  (section 4.1); the sensor modules that interpret the argument are not under the sources.\<close>

datatype binding = EventBound | PollBound

definition binding_of :: "addr \<Rightarrow> binding" where
  "binding_of ev = (if ev = Null then PollBound else EventBound)"

text \<open>Modelled from the spec: the states of the Sensor Task Procedure (section 4.2, "State
  machine"); the body of \<^verbatim>\<open>sensor_task\<close> is not under the sources.\<close>

datatype phase =
    WaitingForNotification
  | CheckingData
  | AcquiringBus
  | Reading
  | PublishingMessage

text \<open>What a task did with the bus, in order: recorded so that the pairing of acquire, read
  and release can be stated.\<close>

datatype bus_event = Acquired | ReadOk | ReadFailed | Released

text \<open>Modelled from the spec: the SensorContext of section 3 (consumer, sensor, readings buffer)
  together with the instance's binding, its current phase and its bus history. The first two
  fields are the \<^verbatim>\<open>SensorTaskData\<close> that \<^verbatim>\<open>sensor_setup\<close> fills in.\<close>

record SensorContext =
  consumer_id :: "8 word"
  sensor_ref :: addr
  kind :: data_kind
  binding :: binding
  readings :: int
  phase :: phase
  bus_log :: "bus_event list"

text \<open>Modelled from the spec: the DisplayMessage of section 3.\<close>

record DisplayMessage =
  msg_kind :: data_kind
  msg_value :: int
  source_task :: nat

text \<open>Modelled from the spec: what happens to a post when the queue is full is a declared
  choice between blocking the producer and dropping the message (sections 5, 7 and 9).\<close>

datatype full_policy = Block | Drop

record runtime =
  lock :: BusLock
  sensors :: "SensorContext list"
  queue :: "DisplayMessage list"
  capacity :: nat
  policy :: full_policy
  dropped :: nat
  rendered :: "DisplayMessage list"

text \<open>Modelled from the spec: posting to the display task's bounded message channel
  (sections 4.4 and 6; the kernel's message queue is not under the sources). A full queue
  takes nothing: \<open>None\<close>.\<close>

definition post :: "DisplayMessage \<Rightarrow> runtime \<Rightarrow> runtime option" where
  "post m r = (if length (queue r) < capacity r then Some (r\<lparr> queue := queue r @ [m] \<rparr>) else None)"

definition put :: "nat \<Rightarrow> SensorContext \<Rightarrow> runtime \<Rightarrow> runtime" where
  "put t c r = r\<lparr> sensors := (sensors r)[t := c] \<rparr>"

text \<open>Modelled from the spec: one transition of the Sensor Task Procedure for the instance
  \<open>t\<close> (section 4.2, steps 1 to 7, and the ReadFailure and ResourceExhausted rules of
  section 7); the body of \<^verbatim>\<open>sensor_task\<close> is not under the sources.
  \<open>nd\<close> is what \<^verbatim>\<open>has_new_data()\<close> answers if it is asked, \<open>rr\<close> what
  \<^verbatim>\<open>read()\<close> returns if it is called (\<open>None\<close>: it signals a failure).
  \<^item> waiting: the notification has arrived (event or timeout), go and check;
  \<^item> checking: a poll-driven instance without new data returns to waiting, untouched;
  \<^item> acquiring: take the lock, or stay blocked;
  \<^item> reading: call \<^verbatim>\<open>read()\<close>, store a result, release the lock in either case;
    a failed read skips publishing;
  \<^item> publishing: post one message built from the buffer; on a full queue a blocking producer
    stays, a dropping one counts the loss and goes on.
  A task that does not exist takes no step.\<close>

definition sensor_step :: "nat \<Rightarrow> bool \<Rightarrow> int option \<Rightarrow> runtime \<Rightarrow> runtime" where
  "sensor_step t nd rr r =
     (if t < length (sensors r) then
        (let c = sensors r ! t in
         case phase c of
           WaitingForNotification \<Rightarrow> put t (c\<lparr> phase := CheckingData \<rparr>) r
         | CheckingData \<Rightarrow>
             (if binding c = PollBound \<and> \<not> nd
              then put t (c\<lparr> phase := WaitingForNotification \<rparr>) r
              else put t (c\<lparr> phase := AcquiringBus \<rparr>) r)
         | AcquiringBus \<Rightarrow>
             (case acquire (lock r) of
                None \<Rightarrow> r
              | Some l \<Rightarrow>
                  (put t (c\<lparr> phase := Reading, bus_log := bus_log c @ [Acquired] \<rparr>) r)
                    \<lparr> lock := l \<rparr>)
         | Reading \<Rightarrow>
             (case rr of
                Some v \<Rightarrow>
                  (put t (c\<lparr> readings := v, phase := PublishingMessage,
                              bus_log := bus_log c @ [ReadOk, Released] \<rparr>) r)
                    \<lparr> lock := release (lock r) \<rparr>
              | None \<Rightarrow>
                  (put t (c\<lparr> phase := WaitingForNotification,
                              bus_log := bus_log c @ [ReadFailed, Released] \<rparr>) r)
                    \<lparr> lock := release (lock r) \<rparr>)
         | PublishingMessage \<Rightarrow>
             (case post \<lparr> msg_kind = kind c, msg_value = readings c, source_task = t \<rparr> r of
                Some r' \<Rightarrow> put t (c\<lparr> phase := WaitingForNotification \<rparr>) r'
              | None \<Rightarrow>
                  (case policy r of
                     Block \<Rightarrow> r
                   | Drop \<Rightarrow>
                       (put t (c\<lparr> phase := WaitingForNotification \<rparr>) r)
                         \<lparr> dropped := dropped r + 1 \<rparr>)))
      else r)"

text \<open>Modelled from the spec: the Display Task (section 4.4): wait until a message is
  available, dequeue exactly one, render it; \<^verbatim>\<open>display_task\<close> is not under the
  sources. With an empty queue the task stays blocked.\<close>

definition display_step :: "runtime \<Rightarrow> runtime" where
  "display_step r =
     (case queue r of
        [] \<Rightarrow> r
      | m # q \<Rightarrow> r\<lparr> queue := q, rendered := rendered r @ [m] \<rparr>)"

text \<open>What the scheduler does next: resume a sensor task, with the answers its sensor would
  give, or resume the display task.\<close>

datatype action = RunSensor nat bool "int option" | RunDisplay

fun step :: "action \<Rightarrow> runtime \<Rightarrow> runtime" where
  "step (RunSensor t nd rr) r = sensor_step t nd rr r"
| "step RunDisplay r = display_step r"

fun run :: "action list \<Rightarrow> runtime \<Rightarrow> runtime" where
  "run [] r = r"
| "run (a # as) r = run as (step a r)"

subsection \<open>The state in which the scheduler starts\<close>

text \<open>A fresh context for a task data structure of \<^verbatim>\<open>main.c\<close>: the buffer is
  zero-initialised, the task waits for its first notification and has not used the bus.\<close>

definition new_context :: "SensorTaskData \<Rightarrow> data_kind \<Rightarrow> addr \<Rightarrow> SensorContext" where
  "new_context d k ev =
     \<lparr> consumer_id = display_task_id d, sensor_ref = sensor d, kind = k,
       binding = binding_of ev, readings = 0, phase = WaitingForNotification, bus_log = [] \<rparr>"

text \<open>The context behind a task's data pointer, with the data kind and the event handle that
  \<^verbatim>\<open>sensor_setup\<close> passes to that sensor's \<^verbatim>\<open>init_sensor_func\<close>.\<close>

definition context_of :: "sys \<Rightarrow> task \<Rightarrow> SensorContext list" where
  "context_of s t =
     (case data t of
        Addr_tempSensorTaskData \<Rightarrow> [new_context (tempSensorTaskData s) TEMP_DATA Addr_tempEvt]
      | Addr_gyroSensorTaskData \<Rightarrow> [new_context (gyroSensorTaskData s) GYRO_DATA Null]
      | _ \<Rightarrow> [])"

text \<open>The runtime state built from the kernel tables: the lock is the semaphore behind
  \<^verbatim>\<open>i2cSemaphore\<close>, there is one sensor instance per task created with
  \<^verbatim>\<open>sensor_task\<close>, and the display queue has the pool size given for the task created
  with \<^verbatim>\<open>display_task\<close>.\<close>

definition runtime_of :: "sys \<Rightarrow> full_policy \<Rightarrow> runtime" where
  "runtime_of s pol =
     \<lparr> lock = (case map_of (sems s) (i2cSemaphore s) of
                 Some m \<Rightarrow> \<lparr> available = sem_value m, max_count = sem_max m \<rparr>
               | None \<Rightarrow> \<lparr> available = 0, max_count = 0 \<rparr>),
       sensors = concat (map (context_of s) (filter (\<lambda>t. taskproc t = sensor_task) (tasks s))),
       queue = [],
       capacity = (case filter (\<lambda>t. taskproc t = display_task) (tasks s) of
                     [d] \<Rightarrow> nat (poolSize d)
                   | _ \<Rightarrow> 0),
       policy = pol, dropped = 0, rendered = [] \<rparr>"

definition boot_runtime :: "platform \<Rightarrow> full_policy \<Rightarrow> runtime" where
  "boot_runtime p pol = runtime_of (main p sys0) pol"

subsection \<open>Observations on a runtime state\<close>

text \<open>How many tasks hold the lock: a task holds it exactly while it is reading.\<close>

fun holders :: "SensorContext list \<Rightarrow> int" where
  "holders [] = 0"
| "holders (c # cs) = (if phase c = Reading then 1 else 0) + holders cs"

text \<open>The discipline a task's bus history has to follow: acquire, then one read (successful or
  failed), then one release, and so on. \<open>Violated\<close> is a trap state.\<close>

datatype hold = Idle | Held | AfterRead | Violated

fun hold_step :: "hold \<Rightarrow> bus_event \<Rightarrow> hold" where
  "hold_step Idle Acquired = Held"
| "hold_step Held ReadOk = AfterRead"
| "hold_step Held ReadFailed = AfterRead"
| "hold_step AfterRead Released = Idle"
| "hold_step _ _ = Violated"

definition hold_after :: "bus_event list \<Rightarrow> hold" where
  "hold_after es = foldl hold_step Idle es"


text \<open>Whether an action, taken in a state, is a successful acquire or a release.\<close>

fun acquires :: "action \<Rightarrow> runtime \<Rightarrow> bool" where
  "acquires (RunSensor t nd rr) r =
     (t < length (sensors r) \<and> phase (sensors r ! t) = AcquiringBus \<and> 0 < available (lock r))"
| "acquires RunDisplay r = False"

fun releases :: "action \<Rightarrow> runtime \<Rightarrow> bool" where
  "releases (RunSensor t nd rr) r =
     (t < length (sensors r) \<and> phase (sensors r ! t) = Reading)"
| "releases RunDisplay r = False"

text \<open>The task a release belongs to has taken the lock and not yet given it back.\<close>

fun releaser_holds :: "action \<Rightarrow> runtime \<Rightarrow> bool" where
  "releaser_holds (RunSensor t nd rr) r =
     (t < length (sensors r) \<and> hold_after (bus_log (sensors r ! t)) = Held)"
| "releaser_holds RunDisplay r = False"

text \<open>A task's history follows the discipline, and the task holds the lock exactly while it is
  reading: in every other phase its history is back at \<open>Idle\<close>.\<close>

definition follows_protocol :: "SensorContext \<Rightarrow> bool" where
  "follows_protocol c = (hold_after (bus_log c) = (if phase c = Reading then Held else Idle))"

text \<open>The lock's count and the number of holders always add up to the initial count.\<close>

definition lock_inv :: "runtime \<Rightarrow> bool" where
  "lock_inv r =
     (available (lock r) + holders (sensors r) = initValue \<and> 0 \<le> available (lock r) \<and>
      max_count (lock r) = maxCount)"



subsection \<open>Observations on the task table\<close>

text \<open>The task data structure behind a task's data pointer.\<close>

definition task_data :: "sys \<Rightarrow> task \<Rightarrow> SensorTaskData option" where
  "task_data s t =
     (case data t of
        Addr_tempSensorTaskData \<Rightarrow> Some (tempSensorTaskData s)
      | Addr_gyroSensorTaskData \<Rightarrow> Some (gyroSensorTaskData s)
      | _ \<Rightarrow> None)"

text \<open>Precedence between tasks: the comments in \<^verbatim>\<open>main.c\<close> call priority 10 the
  highest and priority 100 the lowest, so the smaller number comes first.\<close>

definition precedes :: "task \<Rightarrow> task \<Rightarrow> bool" where
  "precedes a b = (prio a < prio b)"

text \<open>The "0, 0, 0" of \<^verbatim>\<open>task_create\<close>: no queue buffer, no slots, no message size.\<close>

definition no_queue :: "task \<Rightarrow> bool" where
  "no_queue t = (msgPool t = Null \<and> poolSize t = 0 \<and> msgSize t = 0)"

text \<open>Five full activations of the temperature task with successful reads and no display
  step in between, then a sixth up to the publishing phase: the display queue is full and a
  producer is about to post.\<close>

definition fill_queue :: "action list" where
  "fill_queue =
     concat (replicate 5 (replicate 5 (RunSensor 0 True (Some 21)))) @
     replicate 4 (RunSensor 0 True (Some 22))"

text \<open>The temperature task woken and resumed until it holds the bus.\<close>

definition take_bus :: "action list" where
  "take_bus = replicate 3 (RunSensor 0 True None)"

section \<open>Facts about the bootstrap\<close>

lemmas boot_defs =
  main_def system_setup_def sensor_setup_def arduino_setup_def debug_def called_def
  sem_counting_create_def event_create_def task_create_def sys0_def
  maxCount_def initValue_def displayMsgPoolSize_def pollIntervalMillisec_def

lemma tasks_main: "tasks (main p sys0) = [display_row p, temp_row p, gyro_row p]"
  by (simp add: boot_defs Let_def display_row_def temp_row_def gyro_row_def)

lemma tasks_system_setup: "tasks (system_setup p sys0) = []"
  by (simp add: boot_defs Let_def)

lemma sems_system_setup:
  "sems (system_setup p sys0) = [(sem_counting_create_ret p, \<lparr> sem_max = 10, sem_value = 1 \<rparr>)]"
  by (simp add: boot_defs Let_def)

lemma calls_system_setup:
  "calls (system_setup p sys0) =
     [C_init, C_debug ''----arduino_setup'', C_debug ''init_display'', C_init_display,
      C_debug ''Create semaphore'', C_sem_counting_create 10 1]"
  by (simp add: boot_defs Let_def)

lemma calls_main:
  "calls (main p sys0) =
     calls (system_setup p sys0) @
     [C_os_init, C_get_display, C_task_create (display_row p),
      C_event_create, C_event_create, C_event_create,
      C_get_temp_sensor, C_init_sensor_func (Extern (get_temp_sensor_ret p)) TEMP_DATA Addr_tempEvt 500,
      C_get_gyro_sensor, C_init_sensor_func (Extern (get_gyro_sensor_ret p)) GYRO_DATA Null 500,
      C_task_create (temp_row p), C_task_create (gyro_row p),
      C_arduino_start_timer, C_os_start]"
  by (simp add: boot_defs Let_def display_row_def temp_row_def gyro_row_def)

lemma sems_main: "sems (main p sys0) = sems (system_setup p sys0)"
  by (simp add: boot_defs Let_def)

lemma i2cSemaphore_main: "i2cSemaphore (main p sys0) = sem_counting_create_ret p"
  by (simp add: boot_defs Let_def)

lemma tempSensorTaskData_main:
  "tempSensorTaskData (main p sys0) =
     \<lparr> display_task_id = task_create_ret p [], sensor = Extern (get_temp_sensor_ret p) \<rparr>"
  by (simp add: boot_defs Let_def)

lemma gyroSensorTaskData_main:
  "gyroSensorTaskData (main p sys0) =
     \<lparr> display_task_id = task_create_ret p [], sensor = Extern (get_gyro_sensor_ret p) \<rparr>"
  by (simp add: boot_defs Let_def)

section \<open>Facts about the running system\<close>

lemma boot_runtime_eq:
  "boot_runtime p pol =
     \<lparr> lock = \<lparr> available = 1, max_count = 10 \<rparr>,
       sensors =
         [new_context \<lparr> display_task_id = task_create_ret p [], sensor = Extern (get_temp_sensor_ret p) \<rparr>
            TEMP_DATA Addr_tempEvt,
          new_context \<lparr> display_task_id = task_create_ret p [], sensor = Extern (get_gyro_sensor_ret p) \<rparr>
            GYRO_DATA Null],
       queue = [], capacity = 5, policy = pol, dropped = 0, rendered = [] \<rparr>"
  by (simp add: boot_runtime_def runtime_of_def tasks_main sems_main sems_system_setup
      i2cSemaphore_main tempSensorTaskData_main gyroSensorTaskData_main context_of_def
      display_row_def temp_row_def gyro_row_def)

lemmas step_defs = sensor_step_def put_def Let_def post_def acquire_def release_def

lemmas step_splits = phase.splits option.splits full_policy.splits if_splits

subsection \<open>Holders and the lock's count\<close>

lemma holders_nonneg: "0 \<le> holders cs"
  by (induction cs) simp_all

lemma holders_update:
  "t < length cs \<Longrightarrow>
   holders (cs[t := c]) =
     holders cs - (if phase (cs ! t) = Reading then 1 else 0) + (if phase c = Reading then 1 else 0)"
proof (induction cs arbitrary: t)
  case Nil
  then show ?case by simp
next
  case (Cons a cs)
  then show ?case by (cases t) simp_all
qed

lemma lock_inv_sensor_step: "lock_inv r \<Longrightarrow> lock_inv (sensor_step t nd rr r)"
  by (auto simp: lock_inv_def step_defs holders_update split: step_splits)

lemma lock_inv_display_step: "lock_inv r \<Longrightarrow> lock_inv (display_step r)"
  by (simp add: display_step_def lock_inv_def split: list.splits)

lemma lock_inv_step: "lock_inv r \<Longrightarrow> lock_inv (step a r)"
  by (cases a) (simp_all add: lock_inv_sensor_step lock_inv_display_step)

lemma lock_inv_run: "lock_inv r \<Longrightarrow> lock_inv (run as r)"
  by (induction as arbitrary: r) (simp_all add: lock_inv_step)

lemma lock_inv_boot: "lock_inv (boot_runtime p pol)"
  by (simp add: boot_runtime_eq lock_inv_def new_context_def initValue_def maxCount_def)

lemma count_change:
  "available (lock (step a r)) =
     available (lock r) - (if acquires a r then 1 else 0) + (if releases a r then 1 else 0)"
  by (cases a) (auto simp: step_defs display_step_def split: step_splits list.splits)

subsection \<open>The bus discipline of each task\<close>

lemma hold_after_snoc: "hold_after (es @ [e]) = hold_step (hold_after es) e"
  by (simp add: hold_after_def)

lemma hold_after_snoc2: "hold_after (es @ [e, f]) = hold_step (hold_step (hold_after es) e) f"
  by (simp add: hold_after_def)

lemma protocol_sensor_step:
  "list_all follows_protocol (sensors r) \<Longrightarrow>
   list_all follows_protocol (sensors (sensor_step t nd rr r))"
  by (auto simp: step_defs follows_protocol_def hold_after_snoc hold_after_snoc2
      list_all_length nth_list_update split: step_splits)

lemma protocol_step:
  "list_all follows_protocol (sensors r) \<Longrightarrow> list_all follows_protocol (sensors (step a r))"
  by (cases a) (simp_all add: protocol_sensor_step display_step_def split: list.splits)

lemma protocol_run:
  "list_all follows_protocol (sensors r) \<Longrightarrow> list_all follows_protocol (sensors (run as r))"
  by (induction as arbitrary: r) (simp_all add: protocol_step)

lemma protocol_boot: "list_all follows_protocol (sensors (boot_runtime p pol))"
  by (simp add: boot_runtime_eq new_context_def follows_protocol_def hold_after_def)


subsection \<open>The histories account for the lock's count\<close>








subsection \<open>The display queue\<close>

lemma capacity_step: "capacity (step a r) = capacity r"
  by (cases a) (auto simp: step_defs display_step_def split: step_splits list.splits)

lemma capacity_run: "capacity (run as r) = capacity r"
  by (induction as arbitrary: r) (simp_all add: capacity_step)

lemma policy_step: "policy (step a r) = policy r"
  by (cases a) (auto simp: step_defs display_step_def split: step_splits list.splits)

lemma queue_bound_step: "length (queue r) \<le> capacity r \<Longrightarrow> length (queue (step a r)) \<le> capacity r"
  by (cases a) (auto simp: step_defs display_step_def split: step_splits list.splits)

lemma queue_bound_run: "length (queue r) \<le> capacity r \<Longrightarrow> length (queue (run as r)) \<le> capacity r"
proof (induction as arbitrary: r)
  case Nil
  then show ?case by simp
next
  case (Cons a as)
  from Cons.prems have "length (queue (step a r)) \<le> capacity (step a r)"
    by (simp add: queue_bound_step capacity_step)
  from Cons.IH [OF this] show ?case by (simp add: capacity_step)
qed

lemma publish_when_full:
  "t < length (sensors r) \<Longrightarrow> phase (sensors r ! t) = PublishingMessage \<Longrightarrow>
   length (queue r) = capacity r \<Longrightarrow>
   queue (sensor_step t nd rr r) = queue r \<and>
   (case policy r of
      Block \<Rightarrow> sensor_step t nd rr r = r
    | Drop \<Rightarrow> dropped (sensor_step t nd rr r) = dropped r + 1)"
  by (cases "policy r") (simp_all add: step_defs)

section \<open>The claims\<close>

subsection \<open>Bootstrap\<close>

text \<open>
  C3. At bootstrap the bus lock is created as a counting semaphore with initial count 1 (one
  holder at a time) and maximum 10 (the bound \<^verbatim>\<open>main.c\<close> describes as the number of
  tasks that may queue for the bus). It is the only semaphore, \<^verbatim>\<open>i2cSemaphore\<close>
  refers to it, and it is created before the kernel is initialised, before any task is created
  and before the scheduler starts: the only calls that precede its creation are the Arduino
  and display initialisation and three debug messages, and the task table is still empty when
  \<^verbatim>\<open>system_setup\<close> returns.
\<close>

theorem bus_lock_created_at_bootstrap:
  "sems (main p sys0) =
     [(i2cSemaphore (main p sys0), \<lparr> sem_max = maxCount, sem_value = initValue \<rparr>)] \<and>
   initValue = 1 \<and> maxCount = 10 \<and>
   takeWhile (\<lambda>c. c \<noteq> C_sem_counting_create 10 1) (calls (main p sys0)) =
     [C_init, C_debug ''----arduino_setup'', C_debug ''init_display'', C_init_display,
      C_debug ''Create semaphore''] \<and>
   dropWhile (\<lambda>c. c \<noteq> C_sem_counting_create 10 1) (calls (main p sys0)) =
     [C_sem_counting_create 10 1, C_os_init, C_get_display, C_task_create (display_row p),
      C_event_create, C_event_create, C_event_create,
      C_get_temp_sensor,
      C_init_sensor_func (Extern (get_temp_sensor_ret p)) TEMP_DATA Addr_tempEvt 500,
      C_get_gyro_sensor,
      C_init_sensor_func (Extern (get_gyro_sensor_ret p)) GYRO_DATA Null 500,
      C_task_create (temp_row p), C_task_create (gyro_row p),
      C_arduino_start_timer, C_os_start] \<and>
   tasks (system_setup p sys0) = []"
  by (simp add: calls_main calls_system_setup sems_main sems_system_setup i2cSemaphore_main
      tasks_system_setup maxCount_def initValue_def)

text \<open>
  C4. The claim asks for a control task created at bootstrap. \<^verbatim>\<open>main\<close> creates
  exactly three tasks: the display task and two sensor tasks. The events
  \<^verbatim>\<open>prevChEvt\<close> and \<^verbatim>\<open>nextChEvt\<close> are created (three events in all), but no
  task is created to wait for them.
\<close>

theorem no_control_task_created:
  "map (\<lambda>t. (taskproc t, data t)) (tasks (main p sys0)) =
     [(display_task, Extern (get_display_ret p)),
      (sensor_task, Addr_tempSensorTaskData),
      (sensor_task, Addr_gyroSensorTaskData)] \<and>
   length (events (main p sys0)) = 3 \<and>
   length (filter (\<lambda>c. case c of C_task_create t \<Rightarrow> True | _ \<Rightarrow> False) (calls (main p sys0))) = 3"
  by (simp add: tasks_main calls_main calls_system_setup display_row_def temp_row_def
      gyro_row_def) (simp add: boot_defs Let_def)

text \<open>
  C5. The tasks are created with priorities 100 (display), 10 (temperature sensor) and 20
  (gyro sensor). Ordered by priority number the task table reads temperature, gyro, display:
  the temperature task precedes the gyro task, and both precede the display task, whose
  priority number is the largest of all created tasks.
\<close>

theorem task_priorities:
  "map (\<lambda>t. (taskproc t, data t, prio t)) (tasks (main p sys0)) =
     [(display_task, Extern (get_display_ret p), 100),
      (sensor_task, Addr_tempSensorTaskData, 10),
      (sensor_task, Addr_gyroSensorTaskData, 20)] \<and>
   sort_key prio (tasks (main p sys0)) = [temp_row p, gyro_row p, display_row p] \<and>
   precedes (temp_row p) (gyro_row p) \<and>
   precedes (gyro_row p) (display_row p) \<and>
   precedes (temp_row p) (display_row p) \<and>
   Max (prio ` set (tasks (main p sys0))) = prio (display_row p)"
  by (simp add: tasks_main precedes_def display_row_def temp_row_def gyro_row_def)

text \<open>
  C9. The two sensor tasks are the tasks created with the one procedure
  \<^verbatim>\<open>sensor_task\<close>. Their data pointers are distinct: one points to
  \<^verbatim>\<open>tempSensorTaskData\<close>, the other to \<^verbatim>\<open>gyroSensorTaskData\<close>. When the
  scheduler starts, each structure holds the sensor its own getter returned and the id of the
  display task as the consumer.
\<close>

theorem sensor_tasks_share_procedure:
  "map (\<lambda>t. (taskproc t, data t)) (filter (\<lambda>t. taskproc t = sensor_task) (tasks (main p sys0))) =
     [(sensor_task, Addr_tempSensorTaskData), (sensor_task, Addr_gyroSensorTaskData)] \<and>
   distinct (map data (filter (\<lambda>t. taskproc t = sensor_task) (tasks (main p sys0)))) \<and>
   map (task_data (main p sys0)) (filter (\<lambda>t. taskproc t = sensor_task) (tasks (main p sys0))) =
     [Some \<lparr> display_task_id = task_id (display_row p),
             sensor = Extern (get_temp_sensor_ret p) \<rparr>,
      Some \<lparr> display_task_id = task_id (display_row p),
             sensor = Extern (get_gyro_sensor_ret p) \<rparr>] \<and>
   map task_id (filter (\<lambda>t. taskproc t = display_task) (tasks (main p sys0))) =
     [task_id (display_row p)]"
  by (simp add: tasks_main task_data_def tempSensorTaskData_main gyroSensorTaskData_main
      display_row_def temp_row_def gyro_row_def)

text \<open>
  C10. Both sensor tasks are created with the queue arguments 0, 0, 0: a null pool, no slots
  and message size 0. The tasks without a queue are exactly the two sensor tasks; the one task
  with a queue is the display task, with the static pool \<^verbatim>\<open>displayMsgPool\<close> of
  \<^verbatim>\<open>displayMsgPoolSize\<close> slots.
\<close>

theorem only_display_task_has_queue:
  "map (\<lambda>t. (msgPool t, poolSize t, msgSize t))
     (filter (\<lambda>t. taskproc t = sensor_task) (tasks (main p sys0))) =
     [(Null, 0, 0), (Null, 0, 0)] \<and>
   map taskproc (filter no_queue (tasks (main p sys0))) = [sensor_task, sensor_task] \<and>
   map (\<lambda>t. (taskproc t, msgPool t, poolSize t, msgSize t))
     (filter (\<lambda>t. \<not> no_queue t) (tasks (main p sys0))) =
     [(display_task, Addr_displayMsgPool, displayMsgPoolSize, sizeof_DisplayMsg p)]"
  by (simp add: tasks_main no_queue_def display_row_def temp_row_def gyro_row_def
      displayMsgPoolSize_def)

subsection \<open>Running system\<close>



text \<open>
  C2. In every state the system can reach from its start, the available count of the bus lock
  is at least 0, at most the initial count 1 and so at most the configured maximum 10; the count
  and the number of tasks holding the lock add up to the initial count. A step lowers the
  count by one exactly when it is a successful acquire and raises it by one exactly when it is
  a release; every other step leaves it alone. A release is always made by a task that holds
  the lock.
\<close>

theorem bus_lock_count_bounded:
  "0 \<le> available (lock (run as (boot_runtime p pol))) \<and>
   available (lock (run as (boot_runtime p pol))) \<le> initValue \<and>
   available (lock (run as (boot_runtime p pol))) \<le> max_count (lock (run as (boot_runtime p pol))) \<and>
   max_count (lock (run as (boot_runtime p pol))) = maxCount \<and>
   available (lock (run as (boot_runtime p pol))) + holders (sensors (run as (boot_runtime p pol)))
     = initValue \<and>
   (\<forall>a. available (lock (step a (run as (boot_runtime p pol)))) =
          available (lock (run as (boot_runtime p pol)))
            - (if acquires a (run as (boot_runtime p pol)) then 1 else 0)
            + (if releases a (run as (boot_runtime p pol)) then 1 else 0)) \<and>
   (\<forall>a. releases a (run as (boot_runtime p pol)) \<longrightarrow>
          releaser_holds a (run as (boot_runtime p pol)))"
proof -
  let ?r = "run as (boot_runtime p pol)"
  have inv: "lock_inv ?r"
    by (rule lock_inv_run [OF lock_inv_boot])
  have nonneg: "0 \<le> holders (sensors ?r)"
    by (rule holders_nonneg)
  have bounds: "0 \<le> available (lock ?r) \<and> available (lock ?r) \<le> initValue \<and>
      available (lock ?r) \<le> max_count (lock ?r) \<and> max_count (lock ?r) = maxCount \<and>
      available (lock ?r) + holders (sensors ?r) = initValue"
    using inv nonneg by (auto simp: lock_inv_def initValue_def maxCount_def)
  have proto: "list_all follows_protocol (sensors ?r)"
    by (rule protocol_run [OF protocol_boot])
  have matching: "releaser_holds a ?r" if "releases a ?r" for a
  proof (cases a)
    case (RunSensor t nd rr)
    with that have "t < length (sensors ?r)" and "phase (sensors ?r ! t) = Reading"
      by simp_all
    with proto have "hold_after (bus_log (sensors ?r ! t)) = Held"
      by (simp add: list_all_length follows_protocol_def)
    with RunSensor \<open>t < length (sensors ?r)\<close> show ?thesis by simp
  next
    case RunDisplay
    with that show ?thesis by simp
  qed
  from bounds count_change matching show ?thesis by blast
qed

theorem bus_lock_count_bounded_witness:
  "releases (RunSensor 0 True None) (run take_bus (boot_runtime demo_platform Drop)) \<and>
   releaser_holds (RunSensor 0 True None) (run take_bus (boot_runtime demo_platform Drop)) \<and>
   available (lock (run take_bus (boot_runtime demo_platform Drop))) = 0 \<and>
   available (lock (step (RunSensor 0 True None) (run take_bus (boot_runtime demo_platform Drop))))
     = 1"
proof -
  let ?r = "run take_bus (boot_runtime demo_platform Drop)"
  have h: "releases (RunSensor 0 True None) ?r \<and> \<not> acquires (RunSensor 0 True None) ?r \<and>
      available (lock ?r) = 0"
    by (simp add: take_bus_def boot_runtime_eq new_context_def binding_of_def step_defs
        numeral_3_eq_3)
  note t = bus_lock_count_bounded [of take_bus demo_platform Drop]
  from t have c: "available (lock (step (RunSensor 0 True None) ?r)) =
      available (lock ?r) - (if acquires (RunSensor 0 True None) ?r then 1 else 0)
        + (if releases (RunSensor 0 True None) ?r then 1 else 0)"
    by blast
  from t h have m: "releaser_holds (RunSensor 0 True None) ?r"
    by blast
  from h have "available (lock (step (RunSensor 0 True None) ?r)) = 1"
    by (simp only: c) simp
  with h m show ?thesis by blast
qed

text \<open>
  C8. The display task is created with the static pool \<^verbatim>\<open>displayMsgPool\<close> of
  \<^verbatim>\<open>displayMsgPoolSize\<close> = 5 slots as its queue. In every state the system can reach
  from its start, under either policy for a full queue, the queue holds at most that many
  messages. When a producer posts while the queue is full, the queue is unchanged: a blocking
  producer stays where it is, and a dropping producer counts one lost message.
\<close>

theorem display_queue_bounded:
  "map (\<lambda>t. (msgPool t, poolSize t))
     (filter (\<lambda>t. taskproc t = display_task) (tasks (main p sys0))) =
     [(Addr_displayMsgPool, displayMsgPoolSize)] \<and>
   capacity (run as (boot_runtime p pol)) = nat displayMsgPoolSize \<and>
   displayMsgPoolSize = 5 \<and>
   length (queue (run as (boot_runtime p pol))) \<le> capacity (run as (boot_runtime p pol)) \<and>
   (\<forall>t nd rr.
      t < length (sensors (run as (boot_runtime p pol))) \<and>
      phase (sensors (run as (boot_runtime p pol)) ! t) = PublishingMessage \<and>
      length (queue (run as (boot_runtime p pol))) = capacity (run as (boot_runtime p pol)) \<longrightarrow>
      queue (sensor_step t nd rr (run as (boot_runtime p pol))) = queue (run as (boot_runtime p pol)) \<and>
      (case policy (run as (boot_runtime p pol)) of
         Block \<Rightarrow> sensor_step t nd rr (run as (boot_runtime p pol)) = run as (boot_runtime p pol)
       | Drop \<Rightarrow> dropped (sensor_step t nd rr (run as (boot_runtime p pol))) =
                  dropped (run as (boot_runtime p pol)) + 1))"
proof -
  let ?r = "run as (boot_runtime p pol)"
  have pool: "map (\<lambda>t. (msgPool t, poolSize t))
      (filter (\<lambda>t. taskproc t = display_task) (tasks (main p sys0))) =
      [(Addr_displayMsgPool, displayMsgPoolSize)]"
    by (simp add: tasks_main display_row_def temp_row_def gyro_row_def displayMsgPoolSize_def)
  have cap: "capacity ?r = nat displayMsgPoolSize" and five: "displayMsgPoolSize = 5"
    by (simp_all add: capacity_run boot_runtime_eq displayMsgPoolSize_def)
  have "length (queue (boot_runtime p pol)) \<le> capacity (boot_runtime p pol)"
    by (simp add: boot_runtime_eq)
  then have bound: "length (queue ?r) \<le> capacity ?r"
    by (simp add: queue_bound_run capacity_run)
  from pool cap five bound publish_when_full show ?thesis by blast
qed

theorem display_queue_bounded_witness:
  "phase (sensors (run fill_queue (boot_runtime demo_platform Drop)) ! 0) = PublishingMessage \<and>
   length (queue (run fill_queue (boot_runtime demo_platform Drop))) = 5 \<and>
   capacity (run fill_queue (boot_runtime demo_platform Drop)) = 5 \<and>
   queue (sensor_step 0 True None (run fill_queue (boot_runtime demo_platform Drop))) =
     queue (run fill_queue (boot_runtime demo_platform Drop)) \<and>
   dropped (sensor_step 0 True None (run fill_queue (boot_runtime demo_platform Drop))) =
     dropped (run fill_queue (boot_runtime demo_platform Drop)) + 1"
proof -
  let ?r = "run fill_queue (boot_runtime demo_platform Drop)"
  have h: "0 < length (sensors ?r) \<and> phase (sensors ?r ! 0) = PublishingMessage \<and>
      length (queue ?r) = 5 \<and> capacity ?r = 5 \<and> policy ?r = Drop"
    by (simp add: fill_queue_def boot_runtime_eq new_context_def binding_of_def step_defs
        numeral_nat)
  from display_queue_bounded [of demo_platform fill_queue Drop] h
  show ?thesis by simp
qed

end
